theory Spec2Isabelle
  imports Complex_Main
begin

section \<open>Python computations: exceptions and the state of the interpreter\<close>

text \<open>
  The notebook \<^verbatim>\<open>solutions/01-finite-differencing.ipynb\<close> defines three functions,
  \<^verbatim>\<open>backward_differencing\<close>, \<^verbatim>\<open>forward_differencing\<close> and
  \<^verbatim>\<open>central_differencing\<close>. Each takes a callable \<^verbatim>\<open>f\<close>, a point \<^verbatim>\<open>x_i\<close> and a
  grid spacing \<^verbatim>\<open>dx\<close>, calls \<^verbatim>\<open>f\<close> at the stencil points and divides a combination of
  the values by \<^verbatim>\<open>dx\<close>.

  The functions are written once and run on whatever numbers they are given. Two kinds
  of numbers are modelled. The first is Python's own \<^verbatim>\<open>float\<close>: a finite double, read as
  a \<^typ>\<open>real\<close>, whose operators raise where they cannot give a finite result. What is
  kept of double precision is what decides whether an operator raises: \<^verbatim>\<open>/\<close> raises on a
  zero divisor, and \<^verbatim>\<open>**\<close> raises on overflow and gives zero on underflow. Rounding of
  results that stay finite and non-zero is not modelled. The second kind, the
  \<^verbatim>\<open>numpy.float64\<close> scalar, never raises and returns an infinity or NaN instead; it is
  modelled further down.

  A Python callable may raise and may read and change the state of the interpreter.
  A computation is therefore a function from the state before to an outcome and the
  state after; the outcome is either the exception that was raised (\<open>Inl\<close>) or the
  value that was returned (\<open>Inr\<close>). The exceptions the three functions raise themselves
  are \<^verbatim>\<open>ZeroDivisionError\<close> and \<^verbatim>\<open>OverflowError\<close>; \<open>Raised\<close> stands for every other
  exception, which only the callable can raise. The callable may raise any of them.
\<close>

datatype 'e py_error =
  ZeroDivisionError
| OverflowError
| Raised 'e

type_synonym ('s, 'e, 'a) py = "'s \<Rightarrow> ('e py_error + 'a) \<times> 's"

definition py_return :: "'a \<Rightarrow> ('s, 'e, 'a) py" where
  "py_return v s = (Inr v, s)"

definition py_raise :: "'e py_error \<Rightarrow> ('s, 'e, 'a) py" where
  "py_raise e s = (Inl e, s)"

text \<open>
  Sequencing of two statements: an exception raised by the first one ends the
  computation, since none of the three functions has a \<^verbatim>\<open>try\<close> block.
\<close>

definition py_bind :: "('s, 'e, 'a) py \<Rightarrow> ('a \<Rightarrow> ('s, 'e, 'b) py) \<Rightarrow> ('s, 'e, 'b) py" where
  "py_bind m k s = (case m s of (Inl e, s') \<Rightarrow> (Inl e, s') | (Inr v, s') \<Rightarrow> k v s')"

text \<open>
  The operator \<^verbatim>\<open>/\<close> on Python floats: a zero divisor raises
  \<^verbatim>\<open>ZeroDivisionError\<close>, and nothing else does. HOL's own \<open>a / 0\<close> is \<open>0\<close>, which the
  program never returns.
\<close>

definition py_truediv :: "real \<Rightarrow> real \<Rightarrow> ('s, 'e, real) py" where
  "py_truediv a b = (if b = 0 then py_raise ZeroDivisionError else py_return (a / b))"

text \<open>
  The bounds of double precision under rounding to nearest, ties to even. The largest
  finite double is \<^verbatim>\<open>2^1024 - 2^971\<close>; a result of magnitude \<^verbatim>\<open>2^1024 - 2^970\<close> or more
  rounds to an infinity. The smallest positive double is \<^verbatim>\<open>2^-1074\<close>; a result of
  magnitude \<^verbatim>\<open>2^-1075\<close> or less rounds to zero.
\<close>

definition float_overflow :: real where
  "float_overflow = 2 ^ 1024 - 2 ^ 970"

definition float_underflow :: real where
  "float_underflow = 1 / 2 ^ 1075"

text \<open>
  The operator \<^verbatim>\<open>**\<close> on a Python float and a non-negative integer exponent: a result
  that overflows raises \<^verbatim>\<open>OverflowError\<close>, a result that underflows is \<^verbatim>\<open>0.0\<close>.
\<close>

definition py_pow :: "real \<Rightarrow> nat \<Rightarrow> ('s, 'e, real) py" where
  "py_pow a n =
     (if float_overflow \<le> \<bar>a ^ n\<bar> then py_raise OverflowError
      else if \<bar>a ^ n\<bar> \<le> float_underflow then py_return 0
      else py_return (a ^ n))"

text \<open>
  A callable that is a real-valued function in the mathematical sense: it returns
  \<open>g x\<close>, never raises and leaves the state alone.
\<close>

definition real_valued :: "(real \<Rightarrow> real) \<Rightarrow> real \<Rightarrow> ('s, 'e, real) py" where
  "real_valued g x = py_return (g x)"

section \<open>The finite-difference functions of the notebook\<close>

text \<open>
  \<^verbatim>\<open>
  def backward_differencing(f, x_i, dx):
      f_i = f(x_i)
      f_i_minus_1 = f(x_i - dx)
      return (f_i - f_i_minus_1) / dx
  \<close>
\<close>

definition backward_differencing ::
  "(real \<Rightarrow> ('s, 'e, real) py) \<Rightarrow> real \<Rightarrow> real \<Rightarrow> ('s, 'e, real) py" where
  "backward_differencing f x_i dx =
     py_bind (f x_i) (\<lambda>f_i.
     py_bind (f (x_i - dx)) (\<lambda>f_i_minus_1.
     py_truediv (f_i - f_i_minus_1) dx))"

text \<open>
  \<^verbatim>\<open>
  def forward_differencing(f, x_i, dx):
      f_i = f(x_i)
      f_i_plus_1 = f(x_i + dx)
      return (f_i_plus_1 - f_i) / dx
  \<close>
\<close>

definition forward_differencing ::
  "(real \<Rightarrow> ('s, 'e, real) py) \<Rightarrow> real \<Rightarrow> real \<Rightarrow> ('s, 'e, real) py" where
  "forward_differencing f x_i dx =
     py_bind (f x_i) (\<lambda>f_i.
     py_bind (f (x_i + dx)) (\<lambda>f_i_plus_1.
     py_truediv (f_i_plus_1 - f_i) dx))"

text \<open>
  \<^verbatim>\<open>
  def central_differencing(f, x_i, dx):
      f_i = f(x_i)
      f_i_minus_1 = f(x_i - dx)
      f_i_plus_1 = f(x_i + dx)
      first_derivative = (f_i_plus_1 - f_i_minus_1) / (2.0 * dx)
      second_derivative = (f_i_minus_1 - 2.0 * f_i + f_i_plus_1) / (dx**2)
      return first_derivative, second_derivative
  \<close>
\<close>

definition central_differencing ::
  "(real \<Rightarrow> ('s, 'e, real) py) \<Rightarrow> real \<Rightarrow> real \<Rightarrow> ('s, 'e, real \<times> real) py" where
  "central_differencing f x_i dx =
     py_bind (f x_i) (\<lambda>f_i.
     py_bind (f (x_i - dx)) (\<lambda>f_i_minus_1.
     py_bind (f (x_i + dx)) (\<lambda>f_i_plus_1.
     py_bind (py_truediv (f_i_plus_1 - f_i_minus_1) (2 * dx)) (\<lambda>first_derivative.
     py_bind (py_pow dx 2) (\<lambda>dx_squared.
     py_bind (py_truediv (f_i_minus_1 - 2 * f_i + f_i_plus_1) dx_squared) (\<lambda>second_derivative.
     py_return (first_derivative, second_derivative)))))))"

section \<open>The same functions on numpy scalars\<close>







section \<open>Schemes the notebook describes and leaves to the reader\<close>

text \<open>
  Modelled from the spec: the fourth-order central scheme. The notebook gives both
  formulas in its extension exercise "Higher order" and defines no function for them;
  the specification lists them as
  \<^verbatim>\<open>(-f(x+2dx) + 8f(x+dx) - 8f(x-dx) + f(x-2dx)) / (12*dx)\<close> and
  \<^verbatim>\<open>(-f(x-2dx) + 16f(x-dx) - 30f(x) + 16f(x+dx) - f(x+2dx)) / (12*dx^2)\<close>.
  The definition is laid out as \<^verbatim>\<open>central_differencing\<close> is: the five values first, then
  the two quotients, returned as a pair. The order of the five calls is not fixed by the
  specification; they are made from left to right along the grid.
\<close>

definition central_differencing_order4 ::
  "(real \<Rightarrow> ('s, 'e, real) py) \<Rightarrow> real \<Rightarrow> real \<Rightarrow> ('s, 'e, real \<times> real) py" where
  "central_differencing_order4 f x_i dx =
     py_bind (f (x_i - 2 * dx)) (\<lambda>f_i_minus_2.
     py_bind (f (x_i - dx)) (\<lambda>f_i_minus_1.
     py_bind (f x_i) (\<lambda>f_i.
     py_bind (f (x_i + dx)) (\<lambda>f_i_plus_1.
     py_bind (f (x_i + 2 * dx)) (\<lambda>f_i_plus_2.
     py_bind (py_truediv
        (- f_i_plus_2 + 8 * f_i_plus_1 - 8 * f_i_minus_1 + f_i_minus_2)
        (12 * dx)) (\<lambda>first_derivative.
     py_bind (py_truediv
        (- f_i_minus_2 + 16 * f_i_minus_1 - 30 * f_i + 16 * f_i_plus_1 - f_i_plus_2)
        (12 * dx ^ 2)) (\<lambda>second_derivative.
     py_return (first_derivative, second_derivative))))))))"

text \<open>
  Modelled from the spec: the self-convergence mode of the convergence estimator. The
  notebook derives the formula in its extension exercise "Self convergence" and defines
  no function for it; the specification gives
  \<^verbatim>\<open>p = log2(|(F(4dx) - F(2dx)) / (F(2dx) - F(dx))|)\<close> and leaves a zero denominator to
  the caller, as a division by zero. The three arguments are the approximations at
  spacings \<open>4 dx\<close>, \<open>2 dx\<close> and \<open>dx\<close>, in this order.
\<close>

definition self_convergence :: "real \<Rightarrow> real \<Rightarrow> real \<Rightarrow> ('s, 'e, real) py" where
  "self_convergence F_4dx F_2dx F_dx =
     py_bind (py_truediv (F_4dx - F_2dx) (F_2dx - F_dx)) (\<lambda>ratio.
     py_return (log 2 \<bar>ratio\<bar>))"

section \<open>Callables whose outcome does not depend on the state\<close>

text \<open>
  A callable is deterministic when what it returns or raises at an argument is the same
  in every state of the interpreter. It may still change the state.
\<close>

definition deterministic :: "(real \<Rightarrow> ('s, 'e, real) py) \<Rightarrow> bool" where
  "deterministic f = (\<forall>x s s'. fst (f x s) = fst (f x s'))"

section \<open>Running a computation step by step\<close>

lemma py_bind_return: "py_bind (py_return v) k s = k v s"
  by (simp add: py_bind_def py_return_def)

lemma py_bind_raise: "py_bind (py_raise e) k s = (Inl e, s)"
  by (simp add: py_bind_def py_raise_def)

lemma py_truediv_nonzero: "b \<noteq> 0 \<Longrightarrow> py_truediv a b = py_return (a / b)"
  by (simp add: py_truediv_def)

lemma py_truediv_zero: "py_truediv a 0 = py_raise ZeroDivisionError"
  by (simp add: py_truediv_def)

lemma py_bind_fst:
  assumes "fst (m s) = fst (m s')"
    and "\<And>v t t'. fst (k v t) = fst (k v t')"
  shows "fst (py_bind m k s) = fst (py_bind m k s')"
  using assms by (auto simp: py_bind_def split: prod.splits sum.splits)

lemma py_truediv_fst: "fst (py_truediv a b s) = fst (py_truediv a b s')"
  by (simp add: py_truediv_def py_raise_def py_return_def)

lemma py_return_fst: "fst (py_return v s) = fst (py_return v s')"
  by (simp add: py_return_def)

lemma py_pow_fst: "fst (py_pow a n s) = fst (py_pow a n s')"
  by (simp add: py_pow_def py_raise_def py_return_def)

lemma py_pow_in_range:
  "float_underflow < \<bar>a ^ n\<bar> \<Longrightarrow> \<bar>a ^ n\<bar> < float_overflow \<Longrightarrow> py_pow a n = py_return (a ^ n)"
  by (simp add: py_pow_def)

lemma py_pow_underflow: "\<bar>a ^ n\<bar> \<le> float_underflow \<Longrightarrow> py_pow a n = py_return 0"
  by (simp add: py_pow_def float_underflow_def float_overflow_def)

lemma py_pow_minus_2: "py_pow (- a) 2 = py_pow a 2"
  by (simp add: py_pow_def)

lemma py_pow_overflow: "float_overflow \<le> \<bar>a ^ n\<bar> \<Longrightarrow> py_pow a n = py_raise OverflowError"
  by (simp add: py_pow_def)

section \<open>The formulas of the three functions\<close>

text \<open>
  Claim C1, as amended. For every real-valued function \<open>g\<close>, every real \<open>x\<close> and every
  grid spacing \<open>dx > 0\<close> whose square neither underflows to zero nor overflows in double
  precision, \<^verbatim>\<open>central_differencing\<close> returns the pair whose first component is
  \<open>(g (x + dx) - g (x - dx)) / (2 dx)\<close> and whose second component is
  \<open>(g (x - dx) - 2 g x + g (x + dx)) / dx\<^sup>2\<close>. Nothing is raised and the state is
  left as it was.
\<close>

theorem central_differencing_formula:
  "0 < dx \<Longrightarrow> float_underflow < dx ^ 2 \<Longrightarrow> dx ^ 2 < float_overflow \<Longrightarrow>
   central_differencing (real_valued g) x dx s =
     (Inr ((g (x + dx) - g (x - dx)) / (2 * dx),
           (g (x - dx) - 2 * g x + g (x + dx)) / dx ^ 2), s)"
  by (simp add: central_differencing_def real_valued_def py_bind_return
      py_truediv_nonzero py_pow_in_range py_return_def)

theorem central_differencing_formula_witness:
  "(0::real) < 1 / 2 \<and> float_underflow < (1 / 2) ^ 2 \<and> (1 / 2) ^ 2 < float_overflow \<and>
   central_differencing (real_valued (\<lambda>t. t * t * t)) 1 (1 / 2) () =
     (Inr (13 / 4, 6) :: unit py_error + real \<times> real, ())"
proof -
  have lo: "float_underflow < (1 / 2 :: real) ^ 2"
    by (simp add: float_underflow_def power2_eq_square)
  have hi: "(1 / 2 :: real) ^ 2 < float_overflow"
    by (simp add: float_overflow_def power2_eq_square)
  show ?thesis
    using central_differencing_formula [of "1 / 2", OF _ lo hi, of "\<lambda>t. t * t * t" 1 "()"] lo hi
    by (simp add: power2_eq_square)
qed

text \<open>
  The claim as it was made, for every \<open>dx > 0\<close>, fails at both ends of the range of
  doubles. At \<open>dx = 2\<^sup>-\<^sup>5\<^sup>4\<^sup>0\<close> the square underflows to zero and the second division raises
  \<^verbatim>\<open>ZeroDivisionError\<close>; at \<open>dx = 2\<^sup>5\<^sup>1\<^sup>2\<close> the square overflows and \<^verbatim>\<open>**\<close> raises
  \<^verbatim>\<open>OverflowError\<close>. In both cases no pair is returned.
\<close>

theorem central_differencing_formula_counterexample:
  "(0::real) < 1 / 2 ^ 540 \<and>
   central_differencing (real_valued exp) 0 (1 / 2 ^ 540) () =
     (Inl ZeroDivisionError :: unit py_error + real \<times> real, ()) \<and>
   central_differencing (real_valued exp) 0 (1 / 2 ^ 540) () \<noteq>
     (Inr ((exp (0 + 1 / 2 ^ 540) - exp (0 - 1 / 2 ^ 540)) / (2 * (1 / 2 ^ 540)),
           (exp (0 - 1 / 2 ^ 540) - 2 * exp 0 + exp (0 + 1 / 2 ^ 540)) / (1 / 2 ^ 540) ^ 2)
        :: unit py_error + real \<times> real, ()) \<and>
   (0::real) < 2 ^ 512 \<and>
   central_differencing (real_valued exp) 0 (2 ^ 512) () =
     (Inl OverflowError :: unit py_error + real \<times> real, ()) \<and>
   central_differencing (real_valued exp) 0 (2 ^ 512) () \<noteq>
     (Inr ((exp (0 + 2 ^ 512) - exp (0 - 2 ^ 512)) / (2 * 2 ^ 512),
           (exp (0 - 2 ^ 512) - 2 * exp 0 + exp (0 + 2 ^ 512)) / (2 ^ 512) ^ 2)
        :: unit py_error + real \<times> real, ())"
proof -
  define tiny :: real where "tiny = 1 / 2 ^ 540"
  define huge :: real where "huge = 2 ^ 512"
  have tiny_nz: "tiny \<noteq> 0" and huge_nz: "huge \<noteq> 0"
    by (simp_all add: tiny_def huge_def)
  have under: "\<bar>tiny ^ 2\<bar> \<le> float_underflow"
    by (simp add: tiny_def float_underflow_def power_divide)
  have over: "float_overflow \<le> \<bar>huge ^ 2\<bar>"
    by (simp add: huge_def float_overflow_def)
  have small: "central_differencing (real_valued exp) 0 tiny () =
      (Inl ZeroDivisionError :: unit py_error + real \<times> real, ())"
    using tiny_nz
    by (simp add: central_differencing_def real_valued_def py_bind_return
        py_truediv_nonzero py_pow_underflow [OF under] py_truediv_zero py_bind_raise)
  have large: "central_differencing (real_valued exp) 0 huge () =
      (Inl OverflowError :: unit py_error + real \<times> real, ())"
    using huge_nz
    by (simp add: central_differencing_def real_valued_def py_bind_return
        py_truediv_nonzero py_pow_overflow [OF over] py_bind_raise)
  show ?thesis
    using small large unfolding tiny_def huge_def by simp
qed

text \<open>
  Claim C2. For every real-valued function \<open>g\<close>, every real \<open>x\<close> and every grid spacing
  \<open>dx > 0\<close>, \<^verbatim>\<open>forward_differencing\<close> returns exactly \<open>(g (x + dx) - g x) / dx\<close>.
\<close>

theorem forward_differencing_formula:
  "0 < dx \<Longrightarrow>
   forward_differencing (real_valued g) x dx s = (Inr ((g (x + dx) - g x) / dx), s)"
  by (simp add: forward_differencing_def real_valued_def py_bind_return
      py_truediv_nonzero py_return_def)

theorem forward_differencing_formula_witness:
  "(0::real) < 1 / 2 \<and>
   forward_differencing (real_valued (\<lambda>t. t * t)) 3 (1 / 2) () =
     (Inr (13 / 2) :: unit py_error + real, ())"
  using forward_differencing_formula [of "1 / 2" "\<lambda>t. t * t" 3 "()"] by simp

text \<open>
  Claim C3. For every real-valued function \<open>g\<close>, every real \<open>x\<close> and every grid spacing
  \<open>dx > 0\<close>, \<^verbatim>\<open>backward_differencing\<close> returns exactly \<open>(g x - g (x - dx)) / dx\<close>.
\<close>

theorem backward_differencing_formula:
  "0 < dx \<Longrightarrow>
   backward_differencing (real_valued g) x dx s = (Inr ((g x - g (x - dx)) / dx), s)"
  by (simp add: backward_differencing_def real_valued_def py_bind_return
      py_truediv_nonzero py_return_def)

theorem backward_differencing_formula_witness:
  "(0::real) < 1 / 2 \<and>
   backward_differencing (real_valued (\<lambda>t. t * t)) 3 (1 / 2) () =
     (Inr (11 / 2) :: unit py_error + real, ())"
  using backward_differencing_formula [of "1 / 2" "\<lambda>t. t * t" 3 "()"] by simp

section \<open>The schemes left to the reader\<close>

text \<open>
  Claim C4. Given three approximations \<open>F (4 dx)\<close>, \<open>F (2 dx)\<close> and \<open>F dx\<close> of one scheme
  and a denominator \<open>F (2 dx) - F dx\<close> that is not zero, the self-convergence mode
  returns \<open>log\<^sub>2 |(F (4 dx) - F (2 dx)) / (F (2 dx) - F dx)|\<close>. Where the numerator is
  zero as well the logarithm is HOL's \<open>log 2 0\<close>, on both sides of the equation.
\<close>

theorem self_convergence_formula:
  "F (2 * dx) - F dx \<noteq> 0 \<Longrightarrow>
   self_convergence (F (4 * dx)) (F (2 * dx)) (F dx) s =
     (Inr (log 2 \<bar>(F (4 * dx) - F (2 * dx)) / (F (2 * dx) - F dx)\<bar>), s)"
  by (simp add: self_convergence_def py_truediv_nonzero py_bind_return py_return_def)

lemma log_2_4: "log 2 4 = (2::real)"
proof -
  have "log 2 4 = log 2 ((2::real) ^ 2)"
    by simp
  also have "\<dots> = 2"
    by (subst log_pow_cancel) simp_all
  finally show ?thesis .
qed

theorem self_convergence_formula_witness:
  "(\<lambda>h. 1 + h ^ 2) (2 * 1) - (\<lambda>h. 1 + h ^ 2) (1::real) \<noteq> (0::real) \<and>
   self_convergence 17 5 2 () = (Inr 2 :: unit py_error + real, ())"
  using self_convergence_formula [of "\<lambda>h. 1 + h ^ 2" 1 "()"]
  by (simp add: log_2_4)

text \<open>
  The derivation of the notebook: when the approximation is the exact value plus one
  power-law error term \<open>C dx\<^sup>p\<close>, the self-convergence rate is \<open>p\<close>. A rate of zero
  is excluded, since a constant \<open>F\<close> makes the denominator zero.
\<close>

lemma self_convergence_power_law:
  assumes dx: "0 < dx" and C: "C \<noteq> 0" and p: "p \<noteq> 0"
    and F: "\<And>h. F h = F0 + C * h powr p"
  shows "self_convergence (F (4 * dx)) (F (2 * dx)) (F dx) s = (Inr p, s)"
proof -
  have two: "(2::real) powr p \<noteq> 1"
    using p powr_eq_one_iff [of 2 p] by simp
  have pos: "0 < dx powr p"
    using dx by simp
  have h2: "(2 * dx) powr p = 2 powr p * dx powr p"
    using dx by (simp add: powr_mult)
  have "(4 * dx) powr p = (2 * (2 * dx)) powr p"
    by simp
  also have "\<dots> = 2 powr p * (2 * dx) powr p"
    using dx by (simp only: powr_mult)
  finally have h4: "(4 * dx) powr p = 2 powr p * (2 powr p * dx powr p)"
    by (simp add: h2)
  have den: "F (2 * dx) - F dx = C * dx powr p * (2 powr p - 1)"
    unfolding F h2 by (simp add: algebra_simps)
  have num: "F (4 * dx) - F (2 * dx) = 2 powr p * (F (2 * dx) - F dx)"
    unfolding F h2 h4 by (simp add: algebra_simps)
  have den_nz: "F (2 * dx) - F dx \<noteq> 0"
    using C pos two by (simp add: den)
  have ratio: "(F (4 * dx) - F (2 * dx)) / (F (2 * dx) - F dx) = 2 powr p"
    using den_nz by (simp add: num)
  show ?thesis
    by (simp add: self_convergence_def py_truediv_nonzero [OF den_nz] py_bind_return
        py_return_def ratio)
qed



section \<open>Polynomials the schemes differentiate exactly\<close>

text \<open>
  The order of a scheme shows in the polynomials on which it makes no error: the
  one-sided differences are exact on straight lines, the second-order central scheme on
  parabolas and the fourth-order scheme on quartics, in exact arithmetic.
\<close>

lemma forward_differencing_exact_linear:
  "dx \<noteq> 0 \<Longrightarrow>
   forward_differencing (real_valued (\<lambda>t. a0 + a1 * t)) x dx s = (Inr a1, s)"
  by (simp add: forward_differencing_def real_valued_def py_bind_return
      py_truediv_nonzero py_return_def field_simps)

lemma backward_differencing_exact_linear:
  "dx \<noteq> 0 \<Longrightarrow>
   backward_differencing (real_valued (\<lambda>t. a0 + a1 * t)) x dx s = (Inr a1, s)"
  by (simp add: backward_differencing_def real_valued_def py_bind_return
      py_truediv_nonzero py_return_def field_simps)

lemma central_differencing_exact_quadratic:
  "float_underflow < dx ^ 2 \<Longrightarrow> dx ^ 2 < float_overflow \<Longrightarrow>
   central_differencing (real_valued (\<lambda>t. a0 + a1 * t + a2 * t ^ 2)) x dx s =
     (Inr (a1 + 2 * a2 * x, 2 * a2), s)"
proof -
  assume lo: "float_underflow < dx ^ 2" and hi: "dx ^ 2 < float_overflow"
  from lo have nz: "dx \<noteq> 0"
    by (auto simp: float_underflow_def)
  have pow: "py_pow dx 2 = py_return (dx ^ 2)"
    using lo hi by (simp add: py_pow_in_range)
  show ?thesis
    using nz
    by (simp add: central_differencing_def real_valued_def py_bind_return pow
        py_truediv_nonzero py_return_def field_simps power2_eq_square)
qed

lemma central_differencing_order4_exact_quartic:
  "dx \<noteq> 0 \<Longrightarrow>
   central_differencing_order4
     (real_valued (\<lambda>t. a0 + a1 * t + a2 * t ^ 2 + a3 * t ^ 3 + a4 * t ^ 4)) x dx s =
     (Inr (a1 + 2 * a2 * x + 3 * a3 * x ^ 2 + 4 * a4 * x ^ 3,
           2 * a2 + 6 * a3 * x + 12 * a4 * x ^ 2), s)"
  by (simp add: central_differencing_order4_def real_valued_def py_bind_return
      py_truediv_nonzero py_return_def field_simps power2_eq_square power3_eq_cube
      power4_eq_xxxx)

section \<open>Zero spacing and failing callables\<close>




text \<open>
  Claim C7. If the callable raises at a stencil point, each of the three functions ends
  with that very exception and in the state the callable left behind: nothing is
  caught, the callable is not called again and no value is returned. The stencil points
  are taken in the order of the calls: \<open>x\<close> first, for all three functions; then
  \<open>x - dx\<close> for the backward and the central difference and \<open>x + dx\<close> for the forward
  difference; then \<open>x + dx\<close> for the central difference.
\<close>

theorem evaluation_failure_surfaces:
  "(f x s = (Inl e, s') \<longrightarrow>
      backward_differencing f x dx s = (Inl e, s') \<and>
      forward_differencing f x dx s = (Inl e, s') \<and>
      central_differencing f x dx s = (Inl e, s')) \<and>
   (f x s = (Inr v, t) \<and> f (x - dx) t = (Inl e, s') \<longrightarrow>
      backward_differencing f x dx s = (Inl e, s') \<and>
      central_differencing f x dx s = (Inl e, s')) \<and>
   (f x s = (Inr v, t) \<and> f (x + dx) t = (Inl e, s') \<longrightarrow>
      forward_differencing f x dx s = (Inl e, s')) \<and>
   (f x s = (Inr v, t) \<and> f (x - dx) t = (Inr w, u) \<and> f (x + dx) u = (Inl e, s') \<longrightarrow>
      central_differencing f x dx s = (Inl e, s'))"
  by (simp add: backward_differencing_def forward_differencing_def central_differencing_def
      py_bind_def)

text \<open>
  The callable of the witness is a square root that raises on negative arguments and
  counts its calls in the state.
\<close>

theorem evaluation_failure_surfaces_witness:
  "let f = (\<lambda>p n. if p < 0 then (Inl (Raised ''ValueError''), Suc n) else (Inr (sqrt p), Suc n)) :: real \<Rightarrow> (nat, string, real) py;
       err = Inl (Raised ''ValueError'')
   in f (- 1) 0 = (err, 1) \<and>
      backward_differencing f (- 1) 1 0 = (Inl (Raised ''ValueError''), 1) \<and>
      forward_differencing f (- 1) 1 0 = (Inl (Raised ''ValueError''), 1) \<and>
      central_differencing f (- 1) 1 0 = (Inl (Raised ''ValueError''), 1) \<and>
      f 0 0 = (Inr 0, 1) \<and> f (0 - 1) 1 = (err, 2) \<and>
      backward_differencing f 0 1 0 = (Inl (Raised ''ValueError''), 2) \<and>
      central_differencing f 0 1 0 = (Inl (Raised ''ValueError''), 2) \<and>
      f (0 + - 1) 1 = (err, 2) \<and>
      forward_differencing f 0 (- 1) 0 = (Inl (Raised ''ValueError''), 2) \<and>
      f (0 - - 1) 1 = (Inr 1, 2) \<and> f (0 + - 1) 2 = (err, 3) \<and>
      central_differencing f 0 (- 1) 0 = (Inl (Raised ''ValueError''), 3)"
  using
    evaluation_failure_surfaces [where f = "(\<lambda>p n. if p < 0 then (Inl (Raised ''ValueError''), Suc n) else (Inr (sqrt p), Suc n))"
      and x = "- 1" and dx = 1 and s = 0 and e = "Raised ''ValueError''" and s' = 1]
    evaluation_failure_surfaces [where f = "(\<lambda>p n. if p < 0 then (Inl (Raised ''ValueError''), Suc n) else (Inr (sqrt p), Suc n))"
      and x = 0 and dx = 1 and s = 0 and v = 0 and t = 1
      and e = "Raised ''ValueError''" and s' = 2]
    evaluation_failure_surfaces [where f = "(\<lambda>p n. if p < 0 then (Inl (Raised ''ValueError''), Suc n) else (Inr (sqrt p), Suc n))"
      and x = 0 and dx = "- 1" and s = 0 and v = 0 and t = 1
      and e = "Raised ''ValueError''" and s' = 2]
    evaluation_failure_surfaces [where f = "(\<lambda>p n. if p < 0 then (Inl (Raised ''ValueError''), Suc n) else (Inr (sqrt p), Suc n))"
      and x = 0 and dx = "- 1" and s = 0 and v = 0 and t = 1 and w = 1 and u = 2
      and e = "Raised ''ValueError''" and s' = 3]
  by (simp add: Let_def)

section \<open>Determinism and symmetries\<close>

text \<open>
  Claim C8. For every deterministic callable \<open>f\<close>, every real \<open>x\<close> and every \<open>dx\<close>, two
  invocations of the same function with the same \<open>f\<close>, \<open>x\<close> and \<open>dx\<close> have the same
  outcome, whatever the states \<open>s\<close> and \<open>s'\<close> in which they start: the functions keep no
  state of their own and read none.
\<close>

theorem schemes_deterministic:
  "deterministic f \<Longrightarrow>
   fst (backward_differencing f x dx s) = fst (backward_differencing f x dx s') \<and>
   fst (forward_differencing f x dx s) = fst (forward_differencing f x dx s') \<and>
   fst (central_differencing f x dx s) = fst (central_differencing f x dx s')"
  unfolding deterministic_def backward_differencing_def forward_differencing_def
    central_differencing_def
  by (intro conjI py_bind_fst py_truediv_fst py_pow_fst py_return_fst) simp_all

theorem schemes_deterministic_witness:
  "let f = (\<lambda>p n. if p < 0 then (Inl (Raised ''ValueError''), Suc n) else (Inr (sqrt p), Suc n)) :: real \<Rightarrow> (nat, string, real) py
   in deterministic f \<and>
      fst (backward_differencing f 1 1 0) = fst (backward_differencing f 1 1 7) \<and>
      fst (forward_differencing f 1 1 0) = fst (forward_differencing f 1 1 7) \<and>
      fst (central_differencing f 1 1 0) = fst (central_differencing f 1 1 7)"
  using schemes_deterministic [where f = "(\<lambda>p n. if p < 0 then (Inl (Raised ''ValueError''), Suc n) else (Inr (sqrt p), Suc n))"
      and x = 1 and dx = 1 and s = 0 and s' = 7]
  by (simp add: Let_def deterministic_def)

text \<open>
  Claim C9. For every real-valued function \<open>g\<close>, every real \<open>x\<close> and every \<open>dx\<close> other
  than zero, \<^verbatim>\<open>central_differencing\<close> returns the same pair for \<open>- dx\<close> as for \<open>dx\<close>.
\<close>

theorem central_differencing_negated_spacing:
  "dx \<noteq> 0 \<Longrightarrow>
   central_differencing (real_valued g) x (- dx) s = central_differencing (real_valued g) x dx s"
proof -
  assume nz: "dx \<noteq> 0"
  have first: "(g (x - dx) - g (x + dx)) / (2 * - dx) = (g (x + dx) - g (x - dx)) / (2 * dx)"
    using nz by (simp add: field_simps)
  have second: "g (x + dx) - 2 * g x + g (x - dx) = g (x - dx) - 2 * g x + g (x + dx)"
    by simp
  have "central_differencing (real_valued g) x (- dx) s =
      py_bind (py_pow dx 2) (\<lambda>dx_squared.
      py_bind (py_truediv (g (x + dx) - 2 * g x + g (x - dx)) dx_squared)
        (\<lambda>second_derivative.
      py_return ((g (x - dx) - g (x + dx)) / (2 * - dx), second_derivative))) s"
    using nz
    by (simp add: central_differencing_def real_valued_def py_bind_return py_truediv_nonzero
        py_pow_minus_2)
  also have "\<dots> = central_differencing (real_valued g) x dx s"
    unfolding first second using nz
    by (simp add: central_differencing_def real_valued_def py_bind_return py_truediv_nonzero)
  finally show ?thesis .
qed

theorem central_differencing_negated_spacing_witness:
  "(1 / 2 :: real) \<noteq> 0 \<and>
   central_differencing (real_valued (\<lambda>t. t * t * t)) 1 (- (1 / 2)) () =
   (central_differencing (real_valued (\<lambda>t. t * t * t)) 1 (1 / 2) ()
      :: (unit py_error + real \<times> real) \<times> unit)"
  using central_differencing_negated_spacing [of "1 / 2" "\<lambda>t. t * t * t" 1 "()"]
  by simp

text \<open>
  Claim C10. For every real-valued function \<open>g\<close>, every real \<open>x\<close> and every \<open>dx\<close> other
  than zero, \<^verbatim>\<open>forward_differencing\<close> at \<open>x\<close> returns what \<^verbatim>\<open>backward_differencing\<close>
  returns at \<open>x + dx\<close>.
\<close>

theorem forward_is_shifted_backward:
  "dx \<noteq> 0 \<Longrightarrow>
   forward_differencing (real_valued g) x dx s =
   backward_differencing (real_valued g) (x + dx) dx s"
  by (simp add: forward_differencing_def backward_differencing_def real_valued_def
      py_bind_return py_truediv_nonzero py_return_def)

theorem forward_is_shifted_backward_witness:
  "(1 / 2 :: real) \<noteq> 0 \<and>
   forward_differencing (real_valued (\<lambda>t. t * t)) 3 (1 / 2) () =
   (backward_differencing (real_valued (\<lambda>t. t * t)) (3 + 1 / 2) (1 / 2) ()
      :: (unit py_error + real) \<times> unit)"
  using forward_is_shifted_backward [of "1 / 2" "\<lambda>t. t * t" 3 "()"]
  by simp

end
